theory Spec2Isabelle
  imports Complex_Main "HOL-Library.Log_Nat"
begin

section \<open>Python strings\<close>

text \<open>
  A Python \<open>str\<close> is modelled as a \<open>string\<close>: each \<open>char\<close> stands for one code point, so the
  model covers the code points 0 to 255. Within that range \<open>str.strip()\<close>, \<open>int()\<close> and
  \<open>float()\<close> treat exactly the twelve characters below as whitespace, and the only decimal
  digits are \<open>0\<close> to \<open>9\<close>.
\<close>

definition isspace :: "char \<Rightarrow> bool" where
  "isspace c = (c \<in> set [CHR 0x09, CHR 0x0A, CHR 0x0B, CHR 0x0C, CHR 0x0D, CHR 0x1C,
                          CHR 0x1D, CHR 0x1E, CHR 0x1F, CHR 0x20, CHR 0x85, CHR 0xA0])"

definition strip :: "string \<Rightarrow> string" where
  "strip s = rev (dropWhile isspace (rev (dropWhile isspace s)))"

definition isdigit :: "char \<Rightarrow> bool" where
  "isdigit c = (c \<in> set ''0123456789'')"

definition digit_val :: "char \<Rightarrow> nat" where
  "digit_val c = of_char c - 48"

definition digits_val :: "string \<Rightarrow> nat" where
  "digits_val ds = foldl (\<lambda>acc c. 10 * acc + digit_val c) 0 ds"

subsection \<open>\<open>int(s)\<close> on a string, base 10\<close>

text \<open>
  \<open>int\<close> strips whitespace, reads one optional sign and then decimal digits, where a single
  underscore may stand between two digits. Anything else raises \<open>ValueError\<close> (\<open>None\<close> here),
  and so does a literal of more than \<open>int_max_str_digits\<close> digits (CPython's default limit).
\<close>

definition int_max_str_digits :: nat where
  "int_max_str_digits = 4300"

fun int_body_ok :: "char \<Rightarrow> string \<Rightarrow> bool" where
  "int_body_ok prev [] = isdigit prev"
| "int_body_ok prev (c # cs) =
     (if c = CHR ''_'' then isdigit prev \<and> int_body_ok c cs
      else isdigit c \<and> int_body_ok c cs)"

definition split_sign :: "string \<Rightarrow> bool \<times> string" where
  "split_sign s =
     (case s of
        [] \<Rightarrow> (False, [])
      | c # cs \<Rightarrow> if c = CHR ''-'' then (True, cs) else if c = CHR ''+'' then (False, cs)
                 else (False, s))"

definition py_int :: "string \<Rightarrow> int option" where
  "py_int s =
     (let (neg, body) = split_sign (strip s) in
      case body of
        [] \<Rightarrow> None
      | c # cs \<Rightarrow>
          if isdigit c \<and> int_body_ok c cs then
            (let ds = filter isdigit body in
             if int_max_str_digits < length ds then None
             else Some (if neg then - int (digits_val ds) else int (digits_val ds)))
          else None)"

section \<open>The csv reader\<close>

text \<open>
  \<open>csv.DictReader(text, delimiter=';')\<close> reads with the \<open>excel\<close> dialect: quote character
  \<open>"\<close>, doubled quotes, no escape character, no skipping of initial spaces, not strict.
  The state machine below is the reader's \<open>parse_process_char\<close> for that dialect (the
  branches of the escape character, which is unset, are left out); \<open>None\<close> is the
  end-of-line marker the reader feeds after the last character of every line.
\<close>

definition delimiter :: char where
  "delimiter = CHR '';''"

definition quotechar :: char where
  "quotechar = CHR 0x22"

definition LF :: char where
  "LF = CHR 0x0A"

definition CR :: char where
  "CR = CHR 0x0D"

definition field_limit :: nat where
  "field_limit = 131072"

datatype csv_error = NewlineInUnquotedField | FieldLargerThanLimit

datatype parser_state =
  START_RECORD | START_FIELD | IN_FIELD | IN_QUOTED_FIELD | QUOTE_IN_QUOTED_FIELD | EAT_CRNL

record reader =
  r_state :: parser_state
  r_fields :: "string list"
  r_field :: string

definition parse_reset :: reader where
  "parse_reset = \<lparr>r_state = START_RECORD, r_fields = [], r_field = []\<rparr>"

definition parse_save_field :: "reader \<Rightarrow> reader" where
  "parse_save_field rd = rd\<lparr>r_fields := r_fields rd @ [r_field rd], r_field := []\<rparr>"

definition parse_add_char :: "reader \<Rightarrow> char \<Rightarrow> csv_error + reader" where
  "parse_add_char rd c =
     (if field_limit \<le> length (r_field rd) then Inl FieldLargerThanLimit
      else Inr (rd\<lparr>r_field := r_field rd @ [c]\<rparr>))"

definition end_of_record :: "reader \<Rightarrow> char option \<Rightarrow> reader" where
  "end_of_record rd c =
     (parse_save_field rd)\<lparr>r_state := (if c = None then START_RECORD else EAT_CRNL)\<rparr>"

definition is_newline :: "char option \<Rightarrow> bool" where
  "is_newline c = (c = Some LF \<or> c = Some CR)"

definition start_field :: "reader \<Rightarrow> char option \<Rightarrow> csv_error + reader" where
  "start_field rd c =
     (case c of
        None \<Rightarrow> Inr (end_of_record rd c)
      | Some ch \<Rightarrow>
          if is_newline c then Inr (end_of_record rd c)
          else if ch = quotechar then Inr (rd\<lparr>r_state := IN_QUOTED_FIELD\<rparr>)
          else if ch = delimiter then Inr (parse_save_field rd)
          else map_sum id (\<lambda>rd'. rd'\<lparr>r_state := IN_FIELD\<rparr>) (parse_add_char rd ch))"

fun parse_process_char :: "reader \<Rightarrow> char option \<Rightarrow> csv_error + reader" where
  "parse_process_char rd c =
     (case r_state rd of
        START_RECORD \<Rightarrow>
          (if c = None then Inr rd
           else if is_newline c then Inr (rd\<lparr>r_state := EAT_CRNL\<rparr>)
           else start_field (rd\<lparr>r_state := START_FIELD\<rparr>) c)
      | START_FIELD \<Rightarrow> start_field rd c
      | IN_FIELD \<Rightarrow>
          (case c of
             None \<Rightarrow> Inr (end_of_record rd c)
           | Some ch \<Rightarrow>
               if is_newline c then Inr (end_of_record rd c)
               else if ch = delimiter then Inr ((parse_save_field rd)\<lparr>r_state := START_FIELD\<rparr>)
               else parse_add_char rd ch)
      | IN_QUOTED_FIELD \<Rightarrow>
          (case c of
             None \<Rightarrow> Inr rd
           | Some ch \<Rightarrow>
               if ch = quotechar then Inr (rd\<lparr>r_state := QUOTE_IN_QUOTED_FIELD\<rparr>)
               else parse_add_char rd ch)
      | QUOTE_IN_QUOTED_FIELD \<Rightarrow>
          (case c of
             None \<Rightarrow> Inr (end_of_record rd c)
           | Some ch \<Rightarrow>
               if ch = quotechar then
                 map_sum id (\<lambda>rd'. rd'\<lparr>r_state := IN_QUOTED_FIELD\<rparr>) (parse_add_char rd ch)
               else if ch = delimiter then Inr ((parse_save_field rd)\<lparr>r_state := START_FIELD\<rparr>)
               else if is_newline c then Inr (end_of_record rd c)
               else map_sum id (\<lambda>rd'. rd'\<lparr>r_state := IN_FIELD\<rparr>) (parse_add_char rd ch))
      | EAT_CRNL \<Rightarrow>
          (case c of
             None \<Rightarrow> Inr (rd\<lparr>r_state := START_RECORD\<rparr>)
           | Some ch \<Rightarrow> if is_newline c then Inr rd else Inl NewlineInUnquotedField))"

text \<open>One line of input: its characters in order, then the end-of-line marker.\<close>

fun process_line :: "reader \<Rightarrow> string \<Rightarrow> csv_error + reader" where
  "process_line rd [] = parse_process_char rd None"
| "process_line rd (c # cs) =
     (case parse_process_char rd (Some c) of
        Inl e \<Rightarrow> Inl e
      | Inr rd' \<Rightarrow> process_line rd' cs)"

text \<open>
  The records of a sequence of lines, as repeated calls of the reader's \<open>__next__\<close> return
  them: a record ends when a line leaves the parser in \<open>START_RECORD\<close>; when the input
  ends inside a record, the pending field is saved and the record returned. An error
  raised anywhere is the result: the caller collects all rows before it returns.
\<close>

fun read_records :: "reader \<Rightarrow> string list \<Rightarrow> csv_error + string list list" where
  "read_records rd [] =
     (if r_field rd \<noteq> [] \<or> r_state rd = IN_QUOTED_FIELD
      then Inr [r_fields (parse_save_field rd)] else Inr [])"
| "read_records rd (l # ls) =
     (case process_line rd l of
        Inl e \<Rightarrow> Inl e
      | Inr rd' \<Rightarrow>
          if r_state rd' = START_RECORD then
            (case read_records parse_reset ls of
               Inl e \<Rightarrow> Inl e
             | Inr recs \<Rightarrow> Inr (r_fields rd' # recs))
          else read_records rd' ls)"

text \<open>
  Iterating \<open>io.StringIO(text)\<close> yields the lines of the text, each with its terminating
  \<open>\n\<close>; no other character ends a line.
\<close>

fun lines_from :: "string \<Rightarrow> string \<Rightarrow> string list" where
  "lines_from cur [] = (if cur = [] then [] else [cur])"
| "lines_from cur (c # cs) =
     (if c = LF then (cur @ [c]) # lines_from [] cs else lines_from (cur @ [c]) cs)"

definition csv_reader :: "string \<Rightarrow> csv_error + string list list" where
  "csv_reader text = read_records parse_reset (lines_from [] text)"

subsection \<open>Dictionaries and \<open>DictReader\<close>\<close>

text \<open>
  A Python \<open>dict\<close> keeps its keys in insertion order: an association list with unique
  keys, where storing under a key that is present replaces the value in place.
\<close>

fun dict_set :: "('k \<times> 'v) list \<Rightarrow> 'k \<Rightarrow> 'v \<Rightarrow> ('k \<times> 'v) list" where
  "dict_set [] k v = [(k, v)]"
| "dict_set ((k', v') # d) k v =
     (if k' = k then (k, v) # d else (k', v') # dict_set d k v)"

definition dict_get :: "('k \<times> 'v) list \<Rightarrow> 'k \<Rightarrow> 'v option" where
  "dict_get d k = map_of d k"

text \<open>
  A row of \<open>DictReader\<close>: the header's names zipped with the record's fields; a name the
  record is too short for gets \<open>None\<close> (\<open>restval\<close>). The surplus fields of a record that is
  too long are stored under the key \<open>None\<close>, which no lookup by name reaches; they are
  left out. \<open>row_get\<close> is \<open>row.get(name)\<close>.
\<close>

type_synonym csvrow = "(string \<times> string option) list"

definition make_row :: "string list \<Rightarrow> string list \<Rightarrow> csvrow" where
  "make_row fieldnames rec =
     fold (\<lambda>k d. dict_set d k None) (drop (length rec) fieldnames)
       (fold (\<lambda>(k, v) d. dict_set d k (Some v)) (zip fieldnames rec) [])"

definition row_get :: "csvrow \<Rightarrow> string \<Rightarrow> string option" where
  "row_get d k = (case dict_get d k of None \<Rightarrow> None | Some v \<Rightarrow> v)"

definition DictReader :: "string \<Rightarrow> csv_error + csvrow list" where
  "DictReader text =
     (case csv_reader text of
        Inl e \<Rightarrow> Inl e
      | Inr [] \<Rightarrow> Inr []
      | Inr (fieldnames # recs) \<Rightarrow>
          Inr (map (make_row fieldnames) (filter (\<lambda>r. r \<noteq> []) recs)))"

section \<open>Python floats\<close>

text \<open>
  A Python \<open>float\<close> is an IEEE 754 binary64 number. A finite one is modelled by its exact
  rational value; the two zeros are one value (the program never tells them apart: it
  only adds floats and compares them with zero). \<open>round64\<close> rounds an exact rational to
  the nearest binary64 number, ties to even, as the addition and the string conversion
  of the hardware and of CPython do; a result of magnitude \<open>2 ^ 1024\<close> or more is an
  infinity.
\<close>

datatype pyfloat = Finite rat | PInf | NInf | NaN

definition pow2 :: "int \<Rightarrow> rat" where
  "pow2 e = (if 0 \<le> e then 2 ^ nat e else 1 / 2 ^ nat (- e))"

definition pow10 :: "int \<Rightarrow> rat" where
  "pow10 e = (if 0 \<le> e then 10 ^ nat e else 1 / 10 ^ nat (- e))"

text \<open>\<open>ilog b q\<close> is the integer part of the logarithm of \<open>q > 0\<close> to the base \<open>b\<close>.\<close>

definition ilog :: "nat \<Rightarrow> rat \<Rightarrow> int" where
  "ilog b q =
     (if 1 \<le> q then int (floorlog b (nat \<lfloor>q\<rfloor>)) - 1
      else - int (floorlog b (nat (\<lceil>1 / q\<rceil> - 1))))"

definition round_half_even :: "rat \<Rightarrow> int" where
  "round_half_even q =
     (let f = \<lfloor>q\<rfloor>; d = q - of_int f in
      if d < 1 / 2 then f else if 1 / 2 < d then f + 1 else if even f then f else f + 1)"

definition round64 :: "rat \<Rightarrow> pyfloat" where
  "round64 q =
     (if q = 0 then Finite 0
      else
        (let a = \<bar>q\<bar>;
             e = max (ilog 2 a) (- 1022);
             u = pow2 (e - 52);
             r = of_int (round_half_even (a / u)) * u
         in if pow2 1024 \<le> r then (if q < 0 then NInf else PInf)
            else Finite (if q < 0 then - r else r)))"

fun fadd :: "pyfloat \<Rightarrow> pyfloat \<Rightarrow> pyfloat" where
  "fadd (Finite a) (Finite b) = round64 (a + b)"
| "fadd NaN y = NaN"
| "fadd x NaN = NaN"
| "fadd PInf NInf = NaN"
| "fadd NInf PInf = NaN"
| "fadd PInf y = PInf"
| "fadd x PInf = PInf"
| "fadd NInf y = NInf"
| "fadd x NInf = NInf"

text \<open>The comparisons \<open>v >= 0\<close> and \<open>v > 0\<close>; both are false of \<open>nan\<close>.\<close>

fun fge0 :: "pyfloat \<Rightarrow> bool" where
  "fge0 (Finite a) = (0 \<le> a)"
| "fge0 PInf = True"
| "fge0 NInf = False"
| "fge0 NaN = False"


subsection \<open>\<open>float(s)\<close> on a string\<close>

text \<open>
  \<open>float\<close> strips whitespace, then checks the underscores (one may stand between two
  digits, nowhere else) and removes them, then reads \<open>inf\<close>, \<open>infinity\<close> or \<open>nan\<close> in any
  case, or a decimal literal: a sign, digits with an optional point, an optional exponent.
  The literal's exact value is rounded to the nearest float. Anything else raises
  \<open>ValueError\<close> (\<open>None\<close> here).
\<close>

fun underscores_ok :: "char \<Rightarrow> string \<Rightarrow> bool" where
  "underscores_ok prev [] = (prev \<noteq> CHR ''_'')"
| "underscores_ok prev (c # cs) =
     (if c = CHR ''_'' then isdigit prev \<and> underscores_ok c cs
      else if prev = CHR ''_'' then isdigit c \<and> underscores_ok c cs
      else underscores_ok c cs)"

definition ascii_lower :: "char \<Rightarrow> char" where
  "ascii_lower c =
     (case map_of (zip ''ABCDEFGHIJKLMNOPQRSTUVWXYZ'' ''abcdefghijklmnopqrstuvwxyz'') c of
        None \<Rightarrow> c
      | Some l \<Rightarrow> l)"

definition parse_exponent :: "string \<Rightarrow> int option" where
  "parse_exponent s =
     (let (neg, ds) = split_sign s in
      if ds \<noteq> [] \<and> list_all isdigit ds
      then Some (if neg then - int (digits_val ds) else int (digits_val ds)) else None)"

definition parse_decimal :: "string \<Rightarrow> rat option" where
  "parse_decimal t =
     (let ip = takeWhile isdigit t;
          r1 = dropWhile isdigit t;
          (fp, r2) =
            (case r1 of
               [] \<Rightarrow> ([], [])
             | c # r \<Rightarrow> if c = CHR ''.'' then (takeWhile isdigit r, dropWhile isdigit r)
                        else ([], r1));
          mant = digits_val (ip @ fp)
      in if ip = [] \<and> fp = [] then None
         else
           (case r2 of
              [] \<Rightarrow> Some (of_nat mant * pow10 (- int (length fp)))
            | c # r \<Rightarrow>
                if c = CHR ''e'' \<or> c = CHR ''E'' then
                  (case parse_exponent r of
                     None \<Rightarrow> None
                   | Some x \<Rightarrow> Some (of_nat mant * pow10 (x - int (length fp))))
                else None))"

definition float_from_string_inner :: "string \<Rightarrow> pyfloat option" where
  "float_from_string_inner s =
     (let (neg, t) = split_sign s; l = map ascii_lower t in
      if l = ''inf'' \<or> l = ''infinity'' then Some (if neg then NInf else PInf)
      else if l = ''nan'' then Some NaN
      else
        (case parse_decimal t of
           None \<Rightarrow> None
         | Some q \<Rightarrow> Some (round64 (if neg then - q else q))))"

definition py_float :: "string \<Rightarrow> pyfloat option" where
  "py_float s =
     (let t = strip s in
      if CHR ''_'' \<in> set t then
        (if underscores_ok (CHR 0x00) t
         then float_from_string_inner (filter (\<lambda>c. c \<noteq> CHR ''_'') t) else None)
      else float_from_string_inner t)"

subsection \<open>\<open>repr\<close> of a float\<close>

text \<open>
  \<open>repr\<close> prints the shortest decimal digit string that reads back as the same float
  and, among the strings of that length, the one nearest to the float's value. With
  \<open>k\<close> digits the only candidates are the value cut to \<open>k\<close> digits and that plus one unit;
  17 digits always suffice.
\<close>

definition digit_char :: "nat \<Rightarrow> char" where
  "digit_char d = ''0123456789'' ! d"

function nat_digits :: "nat \<Rightarrow> string" where
  "nat_digits n = (if n < 10 then [digit_char n] else nat_digits (n div 10) @ [digit_char (n mod 10)])"
  by pat_completeness auto
termination
  by (relation "measure id") auto

declare nat_digits.simps [simp del]

text \<open>
  \<open>candidate a d k\<close>: the \<open>k\<close>-digit decimal \<open>m * 10 ^ (d - k + 1)\<close> nearest to \<open>a\<close> among
  those that round to \<open>a\<close>, as \<open>Some m\<close>, where \<open>d = ilog 10 a\<close>.
\<close>

definition candidate :: "rat \<Rightarrow> int \<Rightarrow> nat \<Rightarrow> int option" where
  "candidate a d k =
     (let sc = pow10 (d - int k + 1);
          s = a / sc;
          lo = \<lfloor>s\<rfloor>;
          hi = lo + 1;
          oklo = (round64 (of_int lo * sc) = Finite a);
          okhi = (round64 (of_int hi * sc) = Finite a);
          dlo = s - of_int lo;
          dhi = of_int hi - s
      in if oklo \<and> okhi then
           Some (if dlo < dhi then lo else if dhi < dlo then hi else if even lo then lo else hi)
         else if oklo then Some lo
         else if okhi then Some hi
         else None)"

function shortest_from :: "rat \<Rightarrow> int \<Rightarrow> nat \<Rightarrow> nat \<times> int" where
  "shortest_from a d k =
     (if 17 \<le> k then (17, round_half_even (a / pow10 (d - 16)))
      else
        (case candidate a d k of
           Some m \<Rightarrow> (k, m)
         | None \<Rightarrow> shortest_from a d (k + 1)))"
  by pat_completeness auto
termination
  by (relation "measure (\<lambda>(a, d, k). 17 - k)") auto

declare shortest_from.simps [simp del]

text \<open>
  The digits of \<open>a > 0\<close> and the position of the decimal point: \<open>a\<close> is
  \<open>0.d\<^sub>1d\<^sub>2\<dots>d\<^sub>n * 10 ^ decpt\<close>.
\<close>

definition shortest_digits :: "rat \<Rightarrow> string \<times> int" where
  "shortest_digits a =
     (let d = ilog 10 a;
          (k, m) = shortest_from a d 1
      in if m = 10 ^ k then (''1'', d + 2) else (nat_digits (nat m), d + 1))"

definition format_repr :: "string \<Rightarrow> int \<Rightarrow> string" where
  "format_repr ds decpt =
     (if decpt \<le> - 4 \<or> 16 < decpt then
        (let x = decpt - 1;
             xs = nat_digits (nat \<bar>x\<bar>)
         in take 1 ds @ (if 1 < length ds then ''.'' @ drop 1 ds else [])
            @ ''e'' @ (if x < 0 then ''-'' else ''+'')
            @ (if length xs < 2 then ''0'' @ xs else xs))
      else if decpt \<le> 0 then ''0.'' @ replicate (nat (- decpt)) (CHR ''0'') @ ds
      else if nat decpt < length ds then take (nat decpt) ds @ ''.'' @ drop (nat decpt) ds
      else ds @ replicate (nat decpt - length ds) (CHR ''0'') @ ''.0'')"

definition float_repr :: "pyfloat \<Rightarrow> string" where
  "float_repr x =
     (case x of
        PInf \<Rightarrow> ''inf''
      | NInf \<Rightarrow> ''-inf''
      | NaN \<Rightarrow> ''nan''
      | Finite q \<Rightarrow>
          if q = 0 then ''0.0''
          else
            (let (ds, decpt) = shortest_digits \<bar>q\<bar> in
             (if q < 0 then ''-'' else []) @ format_repr ds decpt))"

section \<open>Menu rows\<close>

text \<open>
  A value of the \<open>harga\<close> field as the aggregator may meet it: \<open>None\<close>, a string, an int or
  a float (a \<open>Finite q\<close> stands for a float where \<open>q\<close> is a binary64 number). A row is a
  dict with the keys \<open>kategori\<close>, \<open>nama\<close> and \<open>harga\<close>; \<open>r.get("kategori")\<close> is a string or
  \<open>None\<close>, and a missing key reads as \<open>None\<close> too.
\<close>

datatype pyval = PNone | PStr string | PInt int | PFloat pyfloat

record row =
  kategori :: "string option"
  nama :: "string option"
  harga :: pyval

text \<open>\<open>x or d\<close> for a string or \<open>None\<close>: \<open>None\<close> and the empty string are false.\<close>

definition or_else :: "string option \<Rightarrow> string \<Rightarrow> string" where
  "or_else x d = (case x of None \<Rightarrow> d | Some s \<Rightarrow> if s = [] then d else s)"

subsection \<open>\<open>load_csv\<close>\<close>

definition SAMPLE_CSV :: string where
  "SAMPLE_CSV =
     ''kategori;nama;harga'' @ [LF] @
     ''Makanan;Ayam Bakar;25000'' @ [LF] @
     ''Makanan;Nasi Goreng;18000'' @ [LF] @
     ''Minuman;Es Teh;5000'' @ [LF] @
     ''Minuman;Jus Alpukat;12000'' @ [LF]"

text \<open>
  The body of the loop of \<open>load_csv\<close>: \<open>int(...)\<close> of the stripped price field, 0 when it
  raises \<open>ValueError\<close>; category and name stripped.
\<close>

definition load_row :: "csvrow \<Rightarrow> row" where
  "load_row r =
     \<lparr>kategori = Some (strip (or_else (row_get r ''kategori'') [])),
      nama = Some (strip (or_else (row_get r ''nama'') [])),
      harga = PInt (case py_int (strip (or_else (row_get r ''harga'') ''0'')) of
                      None \<Rightarrow> 0
                    | Some n \<Rightarrow> n)\<rparr>"

text \<open>
  \<open>load_csv\<close> on the text of the file (for an uploaded buffer: its bytes decoded as
  UTF-8). An error of the csv reader is not caught and leaves the function.
\<close>

definition load_csv :: "string \<Rightarrow> csv_error + row list" where
  "load_csv text = map_sum id (map load_row) (DictReader text)"

subsection \<open>\<open>_to_number\<close> and \<open>compute_totals\<close>\<close>

text \<open>
  \<open>str(x)\<close>; of an int with more than \<open>int_max_str_digits\<close> digits it raises \<open>ValueError\<close>.
\<close>

definition py_str :: "pyval \<Rightarrow> string option" where
  "py_str x =
     (case x of
        PNone \<Rightarrow> Some ''None''
      | PStr s \<Rightarrow> Some s
      | PInt n \<Rightarrow>
          (let ds = nat_digits (nat \<bar>n\<bar>) in
           if int_max_str_digits < length ds then None
           else Some ((if n < 0 then ''-'' else []) @ ds))
      | PFloat f \<Rightarrow> Some (float_repr f))"

text \<open>\<open>float(str(x).strip())\<close>, \<open>None\<close> when it raises.\<close>

definition coerce :: "pyval \<Rightarrow> pyfloat option" where
  "coerce x = (case py_str x of None \<Rightarrow> None | Some s \<Rightarrow> py_float (strip s))"

text \<open>\<open>_to_number\<close>: the bare \<open>except\<close> turns every exception into \<open>None\<close>.\<close>

definition to_number :: "pyval \<Rightarrow> pyfloat option" where
  "to_number x =
     (case coerce x of
        None \<Rightarrow> None
      | Some v \<Rightarrow> if fge0 v then Some v else None)"

type_synonym totals = "(string \<times> pyfloat) list"

definition category :: "row \<Rightarrow> string" where
  "category r =
     (let c = strip (or_else (kategori r) []) in if c = [] then ''Tidak diketahui'' else c)"

definition dict_get_default :: "('k \<times> 'v) list \<Rightarrow> 'k \<Rightarrow> 'v \<Rightarrow> 'v" where
  "dict_get_default d k v = (case dict_get d k of None \<Rightarrow> v | Some x \<Rightarrow> x)"

fun compute_loop :: "row list \<Rightarrow> totals \<Rightarrow> pyfloat \<Rightarrow> totals \<times> pyfloat" where
  "compute_loop [] totals total_all = (totals, total_all)"
| "compute_loop (r # rs) totals total_all =
     (case to_number (harga r) of
        None \<Rightarrow> compute_loop rs totals total_all
      | Some v \<Rightarrow>
          compute_loop rs
            (dict_set totals (category r) (fadd (dict_get_default totals (category r) (Finite 0)) v))
            (fadd total_all v))"

definition compute_totals :: "row list \<Rightarrow> totals \<times> pyfloat" where
  "compute_totals rows = compute_loop rows [] (Finite 0)"

section \<open>Export\<close>

subsection \<open>\<open>convert_summary_to_json\<close>\<close>

text \<open>
  \<open>json.dumps(d, indent=4)\<close> of a dict from strings to floats: keys in insertion order,
  every character of a key outside the printable ASCII range escaped, floats printed by
  \<open>repr\<close> (\<open>Infinity\<close>, \<open>-Infinity\<close> and \<open>NaN\<close> for the non-finite ones). The result is ASCII,
  and its UTF-8 encoding is taken byte by byte.
\<close>

definition backslash :: char where
  "backslash = CHR 0x5C"

definition hex_digit :: "nat \<Rightarrow> char" where
  "hex_digit d = ''0123456789abcdef'' ! d"

definition escape_char :: "char \<Rightarrow> string" where
  "escape_char c =
     (if c = quotechar then [backslash, quotechar]
      else if c = backslash then [backslash, backslash]
      else if c = LF then [backslash, CHR ''n'']
      else if c = CR then [backslash, CHR ''r'']
      else if c = CHR 0x09 then [backslash, CHR ''t'']
      else if c = CHR 0x08 then [backslash, CHR ''b'']
      else if c = CHR 0x0C then [backslash, CHR ''f'']
      else if 32 \<le> (of_char c :: nat) \<and> (of_char c :: nat) \<le> 126 then [c]
      else [backslash, CHR ''u'', CHR ''0'', CHR ''0'',
            hex_digit (of_char c div 16), hex_digit (of_char c mod 16)])"

definition json_string :: "string \<Rightarrow> string" where
  "json_string s = [quotechar] @ concat (map escape_char s) @ [quotechar]"

definition json_float :: "pyfloat \<Rightarrow> string" where
  "json_float x =
     (case x of
        PInf \<Rightarrow> ''Infinity''
      | NInf \<Rightarrow> ''-Infinity''
      | NaN \<Rightarrow> ''NaN''
      | Finite q \<Rightarrow> float_repr x)"

fun join :: "string \<Rightarrow> string list \<Rightarrow> string" where
  "join sep [] = []"
| "join sep [x] = x"
| "join sep (x # y # ys) = x @ sep @ join sep (y # ys)"

definition json_dumps :: "totals \<Rightarrow> string" where
  "json_dumps d =
     (if d = [] then ''{}''
      else ''{'' @ [LF]
           @ join ('','' @ [LF]) (map (\<lambda>(k, v). ''    '' @ json_string k @ '': '' @ json_float v) d)
           @ [LF] @ ''}'')"

definition encode_utf8 :: "string \<Rightarrow> string" where
  "encode_utf8 s =
     concat (map (\<lambda>c. if (of_char c :: nat) < 128 then [c]
                       else [char_of (192 + (of_char c :: nat) div 64),
                             char_of (128 + (of_char c :: nat) mod 64)]) s)"

definition convert_summary_to_json :: "totals \<Rightarrow> string" where
  "convert_summary_to_json summary_dict = encode_utf8 (json_dumps summary_dict)"

subsection \<open>\<open>convert_df_to_csv\<close>\<close>

text \<open>
  \<open>df.to_csv(index=False, sep=';')\<close> writes the header and one line per row through a
  \<open>csv.writer\<close> with minimal quoting and the line terminator \<open>\n\<close>: a field is quoted when
  it holds the delimiter, the quote character, \<open>\n\<close> or \<open>\r\<close>, and a quote inside is
  doubled. A missing value (\<open>None\<close>) is written as the empty field. How a price is
  printed depends on the type pandas infers for the whole column; it is the parameter
  \<open>fmt\<close>. A frame without rows has no columns and is written as one empty line.
\<close>

definition needs_quotes :: "string \<Rightarrow> bool" where
  "needs_quotes f = list_ex (\<lambda>c. c = delimiter \<or> c = quotechar \<or> c = LF \<or> c = CR) f"

definition quote_field :: "string \<Rightarrow> string" where
  "quote_field f =
     (if needs_quotes f
      then [quotechar] @ concat (map (\<lambda>c. if c = quotechar then [c, c] else [c]) f) @ [quotechar]
      else f)"





section \<open>The export gate\<close>


section \<open>Notions the properties are stated with\<close>

text \<open>
  The valid prices of a row sequence, in row order: the values \<open>_to_number\<close> returns for
  the rows it does not reject; and those of the rows of one (normalised) category.
\<close>

definition valid_prices :: "row list \<Rightarrow> pyfloat list" where
  "valid_prices rows = List.map_filter (\<lambda>r. to_number (harga r)) rows"

definition prices_of :: "string \<Rightarrow> row list \<Rightarrow> pyfloat list" where
  "prices_of c rows = valid_prices (filter (\<lambda>r. category r = c) rows)"


text \<open>The comparison \<open>v < 0\<close>.\<close>

fun flt0 :: "pyfloat \<Rightarrow> bool" where
  "flt0 (Finite a) = (a < 0)"
| "flt0 PInf = False"
| "flt0 NInf = True"
| "flt0 NaN = False"

text \<open>
  A price field of a parsed line that is missing, empty, or not an integer literal.
\<close>

definition price_field_invalid :: "csvrow \<Rightarrow> bool" where
  "price_field_invalid r =
     (case row_get r ''harga'' of
        None \<Rightarrow> True
      | Some s \<Rightarrow> s = [] \<or> py_int (strip s) = None)"


fun stream :: "reader \<Rightarrow> string \<Rightarrow> csv_error + string list list" where
  "stream rd [] = read_records rd []"
| "stream rd (c # cs) =
     (case parse_process_char rd (Some c) of
        Inl e \<Rightarrow> Inl e
      | Inr rd' \<Rightarrow>
          if c = LF then
            (case parse_process_char rd' None of
               Inl e \<Rightarrow> Inl e
             | Inr rd'' \<Rightarrow>
                 if r_state rd'' = START_RECORD then
                   (case stream parse_reset cs of
                      Inl e \<Rightarrow> Inl e
                    | Inr recs \<Rightarrow> Inr (r_fields rd'' # recs))
                 else stream rd'' cs)
          else stream rd' cs)"








section \<open>Rounding is exact on small integers\<close>

lemma round_half_even_of_int [simp]: "round_half_even (of_int m) = m"
  by (simp add: round_half_even_def)

lemma pow2_pos [simp]: "0 < pow2 e"
  by (simp add: pow2_def)

lemma round64_exact:
  assumes "q \<noteq> 0" and "\<bar>q\<bar> / pow2 (max (ilog 2 \<bar>q\<bar>) (- 1022) - 52) = of_int k"
    and "\<bar>q\<bar> < pow2 1024"
  shows "round64 q = Finite q"
proof -
  let ?u = "pow2 (max (ilog 2 \<bar>q\<bar>) (- 1022) - 52)"
  have "of_int k * ?u = \<bar>q\<bar>"
    using assms(2) pow2_pos [of "max (ilog 2 \<bar>q\<bar>) (- 1022) - 52"]
    by (metis less_irrefl nonzero_divide_eq_eq)
  then have r: "of_int (round_half_even (\<bar>q\<bar> / ?u)) * ?u = \<bar>q\<bar>"
    using assms(2) by simp
  show ?thesis
    unfolding round64_def Let_def r using assms(1,3) by (auto simp: abs_if)
qed

lemma ilog2_of_int:
  assumes "n \<noteq> 0"
  shows "ilog 2 \<bar>of_int n\<bar> = int (floorlog 2 (nat \<bar>n\<bar>)) - 1"
proof -
  have "1 \<le> \<bar>n\<bar>"
    using assms by simp
  then have "(of_int 1 :: rat) \<le> of_int \<bar>n\<bar>"
    by (simp only: of_int_le_iff)
  then have "(1::rat) \<le> \<bar>of_int n\<bar>"
    by simp
  moreover have "\<lfloor>\<bar>of_int n :: rat\<bar>\<rfloor> = \<bar>n\<bar>"
    by (metis floor_of_int of_int_abs)
  ultimately show ?thesis by (simp add: ilog_def)
qed

lemma round64_of_int:
  assumes "\<bar>n\<bar> \<le> 2 ^ 53"
  shows "round64 (of_int n) = Finite (of_int n)"
proof (cases "n = 0")
  case True
  then show ?thesis by (simp add: round64_def)
next
  case False
  define m where "m = nat \<bar>n\<bar>"
  define L where "L = floorlog 2 m"
  have m: "0 < m" "m \<le> 2 ^ 53" "int m = \<bar>n\<bar>"
    using False assms by (auto simp: m_def nat_le_iff)
  have Lb: "2 ^ (L - 1) \<le> m" "m < 2 ^ L"
    using floorlog_bounds [of m 2] m(1) by (auto simp: L_def)
  have "L \<noteq> 0"
    using m(1) by (simp add: L_def floorlog_eq_zero_iff)
  then have L1: "1 \<le> L"
    by simp
  have L54: "L \<le> 54"
    unfolding L_def using m(2) by (intro floorlog_leI) auto
  have il: "ilog 2 \<bar>of_int n :: rat\<bar> = int L - 1"
    using ilog2_of_int [OF False] by (simp add: L_def m_def)
  have e: "max (ilog 2 \<bar>of_int n :: rat\<bar>) (- 1022) - 52 = int L - 53"
    using L1 by (simp add: il)
  have "\<exists>k. \<bar>of_int n :: rat\<bar> / pow2 (int L - 53) = of_int k"
  proof (cases "L \<le> 53")
    case True
    then have "pow2 (int L - 53) = 1 / 2 ^ (53 - L)"
      by (auto simp: pow2_def nat_diff_distrib)
    then have "\<bar>of_int n :: rat\<bar> / pow2 (int L - 53) = of_int (\<bar>n\<bar> * 2 ^ (53 - L))"
      by simp
    then show ?thesis by blast
  next
    case False
    then have "L = 54" using L54 by simp
    then have "m = 2 ^ 53" using Lb(1) m(2) by simp
    then have "\<bar>n\<bar> = 2 ^ 53" using m(3) by simp
    then have "\<bar>of_int n :: rat\<bar> / pow2 (int L - 53) = of_int (2 ^ 52)"
      using \<open>L = 54\<close> by (simp add: pow2_def flip: of_int_abs)
    then show ?thesis by blast
  qed
  then have "\<exists>k. \<bar>of_int n :: rat\<bar> / pow2 (max (ilog 2 \<bar>of_int n\<bar>) (- 1022) - 52) = of_int k"
    by (simp only: e)
  then obtain k where k: "\<bar>of_int n :: rat\<bar> / pow2 (max (ilog 2 \<bar>of_int n\<bar>) (- 1022) - 52) = of_int k"
    by blast
  have "\<bar>of_int n :: rat\<bar> \<le> 2 ^ 53"
    using assms by (metis of_int_abs of_int_le_iff of_int_numeral of_int_power)
  also have "\<dots> < pow2 1024" by (simp add: pow2_def)
  finally have "\<bar>of_int n :: rat\<bar> < pow2 1024" .
  with round64_exact [OF _ k] False show ?thesis by simp
qed

lemma round64_numeral [simp]:
  "(numeral k :: int) \<le> 2 ^ 53 \<Longrightarrow> round64 (numeral k) = Finite (numeral k)"
  using round64_of_int [of "numeral k"] by simp

lemma round64_neg_numeral [simp]:
  "(numeral k :: int) \<le> 2 ^ 53 \<Longrightarrow> round64 (- numeral k) = Finite (- numeral k)"
  using round64_of_int [of "- numeral k"] by simp

lemma round64_0 [simp]: "round64 0 = Finite 0"
  by (simp add: round64_def)

section \<open>Evaluation on concrete inputs\<close>

lemmas str_defs = isspace_def strip_def isdigit_def digit_val_def digits_val_def split_sign_def
lemmas csv_defs = csv_reader_def parse_reset_def parse_save_field_def parse_add_char_def
  end_of_record_def is_newline_def start_field_def delimiter_def quotechar_def LF_def CR_def
  field_limit_def
lemmas parse_defs = py_float_def float_from_string_inner_def parse_decimal_def parse_exponent_def
  ascii_lower_def pow10_def

lemma floor_rat_divide_numeral [simp]:
  "\<lfloor>numeral a / numeral b :: rat\<rfloor> = numeral a div numeral b"
  by (metis floor_divide_of_int_eq of_int_numeral)

lemma ceiling_rat_divide_numeral [simp]:
  "\<lceil>numeral a / numeral b :: rat\<rceil> = - (- numeral a div numeral b)"
  by (metis ceiling_def divide_minus_left floor_divide_of_int_eq of_int_neg_numeral of_int_numeral)

lemma replicate_numeral [simp]:
  "replicate (numeral k) x = x # replicate (pred_numeral k) x"
  by (simp add: numeral_eq_Suc)

lemma nat_digits_numeral:
  "nat_digits (numeral k) =
     (if (numeral k :: nat) < 10 then [digit_char (numeral k)]
      else nat_digits (numeral k div 10) @ [digit_char (numeral k mod 10)])"
  by (rule nat_digits.simps)

lemma nat_digits_small [simp]: "nat_digits 0 = ''0''" "nat_digits (Suc 0) = ''1''"
  by (simp_all add: nat_digits.simps digit_char_def)

lemma shortest_from_numeral:
  "shortest_from a d (numeral k) =
     (if 17 \<le> (numeral k :: nat) then (17, round_half_even (a / pow10 (d - 16)))
      else
        (case candidate a d (numeral k) of
           Some m \<Rightarrow> (numeral k, m)
         | None \<Rightarrow> shortest_from a d (numeral k + 1)))"
  by (rule shortest_from.simps)

lemma shortest_from_1:
  "shortest_from a d (Suc 0) =
        (case candidate a d (Suc 0) of
           Some m \<Rightarrow> (Suc 0, m)
         | None \<Rightarrow> shortest_from a d 2)"
  by (subst shortest_from.simps) (simp add: numeral_2_eq_2 split: option.split)

lemma ilog10_ex: "ilog 10 43000 = 4" "ilog 10 17000 = 4"
  by (simp_all add: ilog_def compute_floorlog)

lemma repr_ex: "float_repr (Finite 43000) = ''43000.0''" "float_repr (Finite 17000) = ''17000.0''"
  by (simp_all add: float_repr_def shortest_digits_def ilog10_ex shortest_from_1 shortest_from_numeral
     candidate_def pow10_def format_repr_def nat_digits_numeral digit_char_def Let_def)

lemma to_number_ex:
  "map to_number [PInt 25000, PInt 18000, PInt 5000, PInt 12000, PStr ''-500'', PStr ''abc'',
      PNone, PStr []]
   = [Some (Finite 25000), Some (Finite 18000), Some (Finite 5000), Some (Finite 12000), None,
      None, None, None]"
  by (simp add: to_number_def coerce_def py_str_def nat_digits_numeral digit_char_def
      int_max_str_digits_def parse_defs str_defs)

lemma sample_records:
  "csv_reader SAMPLE_CSV =
     Inr [[''kategori'', ''nama'', ''harga''],
          [''Makanan'', ''Ayam Bakar'', ''25000''],
          [''Makanan'', ''Nasi Goreng'', ''18000''],
          [''Minuman'', ''Es Teh'', ''5000''],
          [''Minuman'', ''Jus Alpukat'', ''12000'']]"
  by (simp add: SAMPLE_CSV_def csv_defs)

lemma sample_rows:
  "load_csv SAMPLE_CSV =
     Inr [\<lparr>kategori = Some ''Makanan'', nama = Some ''Ayam Bakar'', harga = PInt 25000\<rparr>,
          \<lparr>kategori = Some ''Makanan'', nama = Some ''Nasi Goreng'', harga = PInt 18000\<rparr>,
          \<lparr>kategori = Some ''Minuman'', nama = Some ''Es Teh'', harga = PInt 5000\<rparr>,
          \<lparr>kategori = Some ''Minuman'', nama = Some ''Jus Alpukat'', harga = PInt 12000\<rparr>]"
  by (simp add: load_csv_def DictReader_def sample_records make_row_def load_row_def row_get_def
      dict_get_def or_else_def py_int_def str_defs int_max_str_digits_def)

section \<open>The aggregator\<close>

lemma round_half_even_nonneg: "0 \<le> x \<Longrightarrow> 0 \<le> round_half_even x"
  by (simp add: round_half_even_def Let_def)

lemma round64_nonneg: "0 \<le> q \<Longrightarrow> fge0 (round64 q)"
proof (cases "q = 0")
  case True
  then show ?thesis by simp
next
  case False
  assume "0 \<le> q"
  with False have q: "0 < q" by simp
  define u where "u = pow2 (max (ilog 2 \<bar>q\<bar>) (- 1022) - 52)"
  have "0 \<le> of_int (round_half_even (\<bar>q\<bar> / u)) * u"
    using q by (simp add: u_def round_half_even_nonneg less_imp_le)
  then show ?thesis
    using q by (simp add: round64_def Let_def u_def)
qed

lemma fadd_nonneg: "fge0 a \<Longrightarrow> fge0 b \<Longrightarrow> fge0 (fadd a b)"
  by (cases a; cases b) (simp_all add: round64_nonneg)

lemma to_number_nonneg: "to_number x = Some v \<Longrightarrow> fge0 v"
  by (auto simp: to_number_def split: option.splits if_splits)

lemma dict_get_dict_set:
  "dict_get (dict_set d k v) k' = (if k' = k then Some v else dict_get d k')"
  by (induction d) (auto simp: dict_get_def)

lemma dict_set_values:
  "list_all P (map snd d) \<Longrightarrow> P v \<Longrightarrow> list_all P (map snd (dict_set d k v))"
  by (induction d) auto

lemma dict_get_values:
  "list_all P (map snd d) \<Longrightarrow> dict_get d k = Some v \<Longrightarrow> P v"
  by (induction d) (auto simp: dict_get_def split: if_splits)

lemma dict_get_default_values:
  "list_all P (map snd d) \<Longrightarrow> P v \<Longrightarrow> P (dict_get_default d k v)"
  by (induction d) (auto simp: dict_get_default_def dict_get_def)

lemma compute_loop_nonneg:
  "list_all fge0 (map snd t) \<Longrightarrow> fge0 a \<Longrightarrow>
   list_all fge0 (map snd (fst (compute_loop rows t a))) \<and> fge0 (snd (compute_loop rows t a))"
proof (induction rows arbitrary: t a)
  case Nil
  then show ?case by simp
next
  case (Cons r rows)
  show ?case
  proof (cases "to_number (harga r)")
    case None
    with Cons show ?thesis by simp
  next
    case (Some v)
    then have v: "fge0 v" by (rule to_number_nonneg)
    have "fge0 (dict_get_default t (category r) (Finite 0))"
      using Cons.prems(1) by (rule dict_get_default_values) simp
    then have "fge0 (fadd (dict_get_default t (category r) (Finite 0)) v)"
      using v by (rule fadd_nonneg)
    then have "list_all fge0 (map snd (dict_set t (category r)
        (fadd (dict_get_default t (category r) (Finite 0)) v)))"
      using Cons.prems(1) by (rule dict_set_values [rotated])
    moreover have "fge0 (fadd a v)"
      using Cons.prems(2) v by (rule fadd_nonneg)
    ultimately show ?thesis
      using Some Cons.IH by simp
  qed
qed

lemma compute_loop_append:
  "compute_loop (xs @ ys) t a =
     compute_loop ys (fst (compute_loop xs t a)) (snd (compute_loop xs t a))"
  by (induction xs arbitrary: t a) (auto split: option.splits)

lemma compute_loop_skip:
  "to_number (harga r) = None \<Longrightarrow> compute_loop (xs @ r # ys) t a = compute_loop (xs @ ys) t a"
  by (simp add: compute_loop_append)


lemma compute_loop_lookup:
  "dict_get (fst (compute_loop rows t a)) c =
     (case prices_of c rows of
        [] \<Rightarrow> dict_get t c
      | v # vs \<Rightarrow> Some (foldl fadd (dict_get_default t c (Finite 0)) (v # vs)))"
proof (induction rows arbitrary: t a)
  case Nil
  show ?case by (simp add: prices_of_def valid_prices_def List.map_filter_simps)
next
  case (Cons r rows)
  show ?case
  proof (cases "to_number (harga r)")
    case None
    then have "prices_of c (r # rows) = prices_of c rows"
      by (simp add: prices_of_def valid_prices_def List.map_filter_simps)
    with None Cons show ?thesis by simp
  next
    case (Some v)
    show ?thesis
    proof (cases "category r = c")
      case True
      then have p: "prices_of c (r # rows) = v # prices_of c rows"
        using Some by (simp add: prices_of_def valid_prices_def List.map_filter_simps)
      show ?thesis
        using Some True
        by (simp add: p Cons.IH dict_get_dict_set dict_get_default_def split: list.splits)
    next
      case False
      then have p: "prices_of c (r # rows) = prices_of c rows"
        by (simp add: prices_of_def valid_prices_def List.map_filter_simps)
      show ?thesis
        using Some False
        by (simp add: p Cons.IH dict_get_dict_set dict_get_default_def split: list.splits)
    qed
  qed
qed

lemma flt0_not_fge0: "flt0 v \<Longrightarrow> \<not> fge0 v"
  by (cases v) simp_all

lemma to_number_None_iff:
  "to_number x = None \<longleftrightarrow> coerce x = None \<or> (\<exists>v. coerce x = Some v \<and> \<not> fge0 v)"
  by (auto simp: to_number_def split: option.splits)

lemma coerce_ex:
  "coerce (PStr ''-500'') = Some (Finite (- 500))" "coerce (PStr ''abc'') = None"
  "coerce (PStr []) = None" "coerce PNone = None"
  by (simp_all add: coerce_def py_str_def parse_defs str_defs)

lemma to_number_5000: "to_number (PInt 5000) = Some (Finite 5000)"
  by (simp add: to_number_def coerce_def py_str_def nat_digits_numeral digit_char_def
      int_max_str_digits_def parse_defs str_defs)

lemma prices_of_member:
  "r \<in> set rows \<Longrightarrow> to_number (harga r) = Some v \<Longrightarrow> v \<in> set (prices_of (category r) rows)"
  by (induction rows)
    (auto simp: prices_of_def valid_prices_def List.map_filter_simps split: option.splits)

lemma load_row_invalid: "price_field_invalid r \<Longrightarrow> harga (load_row r) = PInt 0"
proof -
  have z: "py_int (strip ''0'') = Some 0"
    by (simp add: py_int_def str_defs int_max_str_digits_def)
  assume "price_field_invalid r"
  then show ?thesis
    by (auto simp: price_field_invalid_def load_row_def or_else_def z split: option.splits)
qed

lemma malformed_ex:
  "DictReader (''kategori;nama;harga'' @ [LF] @ ''Minuman;Es Teh;abc'' @ [LF] @ ''Minuman;Kopi;'' @ [LF])
     = Inr [[(''kategori'', Some ''Minuman''), (''nama'', Some ''Es Teh''), (''harga'', Some ''abc'')],
            [(''kategori'', Some ''Minuman''), (''nama'', Some ''Kopi''), (''harga'', Some [])]]"
  by (simp add: DictReader_def csv_defs make_row_def)

section \<open>The csv export read back\<close>





















lemma stream_plain_step:
  "parse_process_char rd (Some c) = Inr rd' \<Longrightarrow> c \<noteq> LF \<Longrightarrow> stream rd (c # cs) = stream rd' cs"
  by simp





lemma quote_field_Nil [simp]: "quote_field [] = []"
  by (simp add: quote_field_def needs_quotes_def)



lemma parse_reset_simps [simp]:
  "r_state parse_reset = START_RECORD" "r_fields parse_reset = []" "r_field parse_reset = []"
  by (simp_all add: parse_reset_def)

















section \<open>Deciding a rounding; an overflow\<close>

lemma pow2_power_int: "pow2 e = 2 powi e"
  by (simp add: pow2_def power_int_def power_inverse [symmetric] inverse_eq_divide power_one_over)

lemma pow2_abs [simp]: "\<bar>pow2 e\<bar> = pow2 e"
  by (rule abs_of_pos) simp


lemma pow2_mono: "a \<le> b \<Longrightarrow> pow2 a \<le> pow2 b"
  by (simp add: pow2_power_int power_int_increasing)

lemma pow2_of_nat: "pow2 (int n) = 2 ^ n"
  by (simp add: pow2_def)















section \<open>The claims\<close>

text \<open>
  Claim C1, as the code has it. The claim names the key \<open>Unknown\<close>; the aggregator's
  sentinel is \<open>Tidak diketahui\<close>. A row with an empty category (after trimming, or
  missing) and a price of 5000 is not counted under \<open>Unknown\<close>: the returned mapping has
  the one key \<open>Tidak diketahui\<close>.
\<close>

theorem unknown_key_counterexample:
  "dict_get (fst (compute_totals
       [\<lparr>kategori = Some '' '', nama = Some ''Kerupuk'', harga = PInt 5000\<rparr>])) ''Unknown'' = None
   \<and> fst (compute_totals
       [\<lparr>kategori = Some '' '', nama = Some ''Kerupuk'', harga = PInt 5000\<rparr>])
     = [(''Tidak diketahui'', Finite 5000)]"
  by (simp add: compute_totals_def to_number_5000 category_def or_else_def strip_def isspace_def
      dict_get_default_def dict_get_def)

text \<open>
  Claim C1, amended. For every row sequence and every row in it whose \<open>kategori\<close> is
  empty after trimming (or missing) and whose price \<open>_to_number\<close> accepts, the returned
  mapping has the key \<open>Tidak diketahui\<close>; its value is the float sum, in row order and
  started at 0.0, of the valid prices of the rows of that category, and the row's price
  is one of them.
\<close>

theorem empty_category_under_sentinel:
  assumes "r \<in> set rows" and "strip (or_else (kategori r) []) = []"
    and "to_number (harga r) = Some v"
  shows "dict_get (fst (compute_totals rows)) ''Tidak diketahui''
           = Some (foldl fadd (Finite 0) (prices_of ''Tidak diketahui'' rows))
         \<and> v \<in> set (prices_of ''Tidak diketahui'' rows)"
proof -
  have c: "category r = ''Tidak diketahui''"
    using assms(2) by (simp add: category_def)
  have mem: "v \<in> set (prices_of ''Tidak diketahui'' rows)"
    using prices_of_member [OF assms(1,3)] by (simp only: c)
  then obtain w ws where "prices_of ''Tidak diketahui'' rows = w # ws"
    by (cases "prices_of ''Tidak diketahui'' rows") auto
  then have "dict_get (fst (compute_totals rows)) ''Tidak diketahui''
      = Some (foldl fadd (Finite 0) (prices_of ''Tidak diketahui'' rows))"
    unfolding compute_totals_def compute_loop_lookup
    by (simp add: dict_get_default_def dict_get_def)
  with mem show ?thesis by simp
qed

theorem empty_category_under_sentinel_witness:
  "\<lparr>kategori = None, nama = Some ''Kerupuk'', harga = PInt 5000\<rparr>
      \<in> set [\<lparr>kategori = Some ''Makanan'', nama = Some ''Ayam Bakar'', harga = PInt 25000\<rparr>,
              \<lparr>kategori = None, nama = Some ''Kerupuk'', harga = PInt 5000\<rparr>]
   \<and> strip (or_else (kategori \<lparr>kategori = None, nama = Some ''Kerupuk'', harga = PInt 5000\<rparr>) []) = []
   \<and> to_number (harga \<lparr>kategori = None, nama = Some ''Kerupuk'', harga = PInt 5000\<rparr>)
       = Some (Finite 5000)
   \<and> dict_get (fst (compute_totals
         [\<lparr>kategori = Some ''Makanan'', nama = Some ''Ayam Bakar'', harga = PInt 25000\<rparr>,
          \<lparr>kategori = None, nama = Some ''Kerupuk'', harga = PInt 5000\<rparr>])) ''Tidak diketahui''
       = Some (foldl fadd (Finite 0) (prices_of ''Tidak diketahui''
         [\<lparr>kategori = Some ''Makanan'', nama = Some ''Ayam Bakar'', harga = PInt 25000\<rparr>,
          \<lparr>kategori = None, nama = Some ''Kerupuk'', harga = PInt 5000\<rparr>]))"
proof -
  have a: "\<lparr>kategori = None, nama = Some ''Kerupuk'', harga = PInt 5000\<rparr>
      \<in> set [\<lparr>kategori = Some ''Makanan'', nama = Some ''Ayam Bakar'', harga = PInt 25000\<rparr>,
              \<lparr>kategori = None, nama = Some ''Kerupuk'', harga = PInt 5000\<rparr>]"
    by simp
  have b: "strip (or_else (kategori \<lparr>kategori = None, nama = Some ''Kerupuk'', harga = PInt 5000\<rparr>) []) = []"
    by (simp add: or_else_def strip_def)
  have c: "to_number (harga \<lparr>kategori = None, nama = Some ''Kerupuk'', harga = PInt 5000\<rparr>)
       = Some (Finite 5000)"
    by (simp add: to_number_5000)
  from empty_category_under_sentinel [OF a b c] a b c show ?thesis
    by blast
qed

text \<open>
  Claim C2, evaluated on the code. The parser keeps a negative price: the data line
  \<open>Makanan;Es Teh;-500\<close> yields a row whose \<open>harga\<close> is \<open>-500\<close>.
\<close>

theorem load_csv_negative_price:
  "load_csv (''kategori;nama;harga'' @ [LF] @ ''Makanan;Es Teh;-500'' @ [LF]) =
     Inr [\<lparr>kategori = Some ''Makanan'', nama = Some ''Es Teh'', harga = PInt (- 500)\<rparr>]"
  by (simp add: load_csv_def DictReader_def csv_defs make_row_def load_row_def row_get_def
      dict_get_def or_else_def py_int_def str_defs int_max_str_digits_def)

text \<open>
  Claim C3. A row whose \<open>harga\<close> fails to coerce to a float, or coerces to a negative
  one, contributes nothing: the aggregator returns for the rows with it what it returns
  for the rows without it, mapping and grand total alike (so no key is created for it and
  no zero is added). In particular \<open>"-500"\<close> coerces to the negative number -500, and
  \<open>"abc"\<close>, the empty string and \<open>None\<close> fail to coerce.
\<close>

theorem invalid_price_rows_excluded:
  "(coerce (harga r) = None \<or> (\<exists>v. coerce (harga r) = Some v \<and> flt0 v)
      \<longrightarrow> compute_totals (pre @ r # post) = compute_totals (pre @ post))
   \<and> coerce (PStr ''-500'') = Some (Finite (- 500)) \<and> flt0 (Finite (- 500))
   \<and> coerce (PStr ''abc'') = None \<and> coerce (PStr []) = None \<and> coerce PNone = None"
proof -
  have "compute_totals (pre @ r # post) = compute_totals (pre @ post)"
    if "coerce (harga r) = None \<or> (\<exists>v. coerce (harga r) = Some v \<and> flt0 v)"
  proof -
    from that have "to_number (harga r) = None"
      unfolding to_number_None_iff using flt0_not_fge0 by blast
    then show ?thesis
      unfolding compute_totals_def by (rule compute_loop_skip)
  qed
  then show ?thesis
    by (simp add: coerce_ex)
qed

theorem invalid_price_rows_excluded_witness:
  "coerce (harga \<lparr>kategori = Some ''Minuman'', nama = Some ''Es Teh'', harga = PStr ''-500''\<rparr>)
     = Some (Finite (- 500))
   \<and> flt0 (Finite (- 500))
   \<and> compute_totals
        ([\<lparr>kategori = Some ''Makanan'', nama = Some ''Ayam Bakar'', harga = PInt 25000\<rparr>]
         @ \<lparr>kategori = Some ''Minuman'', nama = Some ''Es Teh'', harga = PStr ''-500''\<rparr>
         # [\<lparr>kategori = Some ''Minuman'', nama = Some ''Jus Alpukat'', harga = PStr ''abc''\<rparr>])
     = compute_totals
        ([\<lparr>kategori = Some ''Makanan'', nama = Some ''Ayam Bakar'', harga = PInt 25000\<rparr>]
         @ [\<lparr>kategori = Some ''Minuman'', nama = Some ''Jus Alpukat'', harga = PStr ''abc''\<rparr>])"
  using invalid_price_rows_excluded
    [of "\<lparr>kategori = Some ''Minuman'', nama = Some ''Es Teh'', harga = PStr ''-500''\<rparr>"
        "[\<lparr>kategori = Some ''Makanan'', nama = Some ''Ayam Bakar'', harga = PInt 25000\<rparr>]"
        "[\<lparr>kategori = Some ''Minuman'', nama = Some ''Jus Alpukat'', harga = PStr ''abc''\<rparr>]"]
  by simp

text \<open>
  Claim C5. Parsing the built-in default dataset and aggregating the rows yields the
  mapping \<open>{"Makanan": 43000.0, "Minuman": 17000.0}\<close>, in that order, and the grand
  total 60000.0.
\<close>

theorem default_dataset_totals:
  "map_sum id compute_totals (load_csv SAMPLE_CSV) =
     Inr ([(''Makanan'', Finite 43000), (''Minuman'', Finite 17000)], Finite 60000)"
  using to_number_ex
  by (simp add: sample_rows compute_totals_def category_def or_else_def strip_def isspace_def
      dict_get_default_def dict_get_def)

text \<open>
  Claim C6. Whenever the csv reader delivers the rows of a text, \<open>load_csv\<close> returns one
  menu row for each of them, and the menu row of a line whose price field is missing,
  empty or not an integer literal has the price 0: the \<open>ValueError\<close> of that field is
  caught. (An error of the csv reader itself, which is about the structure of the text
  and not about a price, is not caught.)
\<close>

theorem malformed_price_defaults_to_zero:
  assumes "DictReader text = Inr rs"
  shows "\<exists>rows. load_csv text = Inr rows \<and> length rows = length rs
           \<and> (\<forall>i<length rs. price_field_invalid (rs ! i) \<longrightarrow> harga (rows ! i) = PInt 0)"
  using assms by (simp add: load_csv_def load_row_invalid)

theorem malformed_price_defaults_to_zero_witness:
  "DictReader (''kategori;nama;harga'' @ [LF] @ ''Minuman;Es Teh;abc'' @ [LF] @ ''Minuman;Kopi;'' @ [LF])
     = Inr [[(''kategori'', Some ''Minuman''), (''nama'', Some ''Es Teh''), (''harga'', Some ''abc'')],
            [(''kategori'', Some ''Minuman''), (''nama'', Some ''Kopi''), (''harga'', Some [])]]
   \<and> price_field_invalid
        [(''kategori'', Some ''Minuman''), (''nama'', Some ''Es Teh''), (''harga'', Some ''abc'')]
   \<and> price_field_invalid
        [(''kategori'', Some ''Minuman''), (''nama'', Some ''Kopi''), (''harga'', Some [])]
   \<and> (\<exists>rows. load_csv (''kategori;nama;harga'' @ [LF] @ ''Minuman;Es Teh;abc'' @ [LF]
                         @ ''Minuman;Kopi;'' @ [LF]) = Inr rows
         \<and> length rows = 2 \<and> harga (rows ! 0) = PInt 0 \<and> harga (rows ! 1) = PInt 0)"
proof -
  have p1: "price_field_invalid
        [(''kategori'', Some ''Minuman''), (''nama'', Some ''Es Teh''), (''harga'', Some ''abc'')]"
    by (simp add: price_field_invalid_def row_get_def dict_get_def py_int_def str_defs)
  have p2: "price_field_invalid
        [(''kategori'', Some ''Minuman''), (''nama'', Some ''Kopi''), (''harga'', Some [])]"
    by (simp add: price_field_invalid_def row_get_def dict_get_def)
  from malformed_price_defaults_to_zero [OF malformed_ex] obtain rows where
    r: "load_csv (''kategori;nama;harga'' @ [LF] @ ''Minuman;Es Teh;abc'' @ [LF]
                         @ ''Minuman;Kopi;'' @ [LF]) = Inr rows"
      "length rows = 2"
      "\<forall>i<2. price_field_invalid
          ([[(''kategori'', Some ''Minuman''), (''nama'', Some ''Es Teh''), (''harga'', Some ''abc'')],
            [(''kategori'', Some ''Minuman''), (''nama'', Some ''Kopi''), (''harga'', Some [])]] ! i)
          \<longrightarrow> harga (rows ! i) = PInt 0"
    by auto
  from r(3) p1 have "harga (rows ! 0) = PInt 0" by force
  moreover from r(3) p2 have "harga (rows ! 1) = PInt 0" by force
  ultimately show ?thesis
    using r(1,2) p1 p2 malformed_ex by blast
qed


text \<open>
  Claim C8. \<open>convert_summary_to_json\<close> is a function of the mapping with its key order
  (so equal inputs give equal bytes), and on \<open>{"Makanan": 43000.0, "Minuman": 17000.0}\<close>
  it returns the bytes of a JSON object indented by four spaces: an opening brace, one
  line per key, a closing brace, lines separated by \<open>\n\<close> (0x0A), strings in double
  quotes (0x22).
\<close>

theorem json_export_example:
  "convert_summary_to_json [(''Makanan'', Finite 43000), (''Minuman'', Finite 17000)] =
     ''{'' @ [CHR 0x0A] @
     ''    '' @ [CHR 0x22] @ ''Makanan'' @ [CHR 0x22] @ '': 43000.0,'' @ [CHR 0x0A] @
     ''    '' @ [CHR 0x22] @ ''Minuman'' @ [CHR 0x22] @ '': 17000.0'' @ [CHR 0x0A] @
     ''}''"
  by (simp add: convert_summary_to_json_def json_dumps_def json_string_def json_float_def repr_ex
      escape_char_def encode_utf8_def quotechar_def backslash_def LF_def CR_def)

text \<open>
  Claim C10. Every value of the mapping \<open>compute_totals\<close> returns is \<open>>= 0\<close>, and so is
  the grand total (either may be \<open>inf\<close>, neither is \<open>nan\<close>).
\<close>

theorem totals_nonnegative:
  "list_all fge0 (map snd (fst (compute_totals rows))) \<and> fge0 (snd (compute_totals rows))"
  unfolding compute_totals_def by (rule compute_loop_nonneg) simp_all






end
